theory Spec2Isabelle
  imports Main "HOL-Library.Char_ord" "HOL-Library.List_Lexorder"
begin

section \<open>Data model\<close>

text \<open>
  Exceptions of the program, as values. The string carried by an exception is the text
  that \<open>str(error)\<close> prints.
\<close>

datatype exn =
    InvalidStatement
  | ValueError
  | KeyError string
  | UnboundLocalError string
  | OutOfRange string
  | NoFeatureError string
  | MissingChromosome string

text \<open>
  Modelled from the spec: the class \<open>sequence.SequenceRange\<close> is imported by
  \<open>gene_snp_probe.py\<close> and its declaration is not among the sources. The spec gives a
  genomic range as \<open>(chromosome, start, end)\<close> plus the two optional flags; the source
  unpacks it as a 5-tuple and passes the flags by keyword, so they default to false.
\<close>

record SequenceRange =
  sr_chromosome :: string
  sr_start :: int
  sr_end :: int
  sr_mutation :: bool
  sr_reverse_complement :: bool

definition SequenceRange_new :: "string \<Rightarrow> int \<Rightarrow> int \<Rightarrow> SequenceRange" where
  "SequenceRange_new c s e =
     \<lparr>sr_chromosome = c, sr_start = s, sr_end = e,
      sr_mutation = False, sr_reverse_complement = False\<rparr>"

text \<open>
  The dictionary returned by \<open>_parse\<close> (keys gene, base, reference, mutation, bases,
  comment), and the dictionary \<open>dict(partial_spec, strand=..., ...)\<close> built in
  \<open>explode\<close>, which extends it by five keys.
\<close>

record partial_spec =
  gene :: string
  base :: int
  reference :: string
  mutation :: string
  bases :: int
  comment :: string

record probe_spec = partial_spec +
  strand :: string
  chromosome :: string
  transcript :: string
  index :: SequenceRange
  index_base :: int

section \<open>print_probes.reverse_complement\<close>

text \<open>\<open>str.maketrans('acgtACGT', 'tgcaTGCA')\<close>: a table from characters to characters.\<close>

definition COMPLEMENT :: "(char \<times> char) list" where
  "COMPLEMENT = zip ''acgtACGT'' ''tgcaTGCA''"

text \<open>\<open>str.translate\<close>: a character of the table is replaced, any other is kept.\<close>

definition translate :: "(char \<times> char) list \<Rightarrow> string \<Rightarrow> string" where
  "translate table s = map (\<lambda>c. case map_of table c of None \<Rightarrow> c | Some d \<Rightarrow> d) s"

definition reverse_complement :: "string \<Rightarrow> string" where
  "reverse_complement s = rev (translate COMPLEMENT s)"

section \<open>GeneSnpProbe.get_ranges\<close>

definition get_ranges :: "probe_spec \<Rightarrow> SequenceRange \<times> SequenceRange \<times> SequenceRange" where
  "get_ranges spec =
     (let start = sr_start (index spec);
          end = sr_end (index spec);
          bases = bases spec;
          chromosome = chromosome spec;
          mutation_bases = int (length (mutation spec));
          left_buffer = bases div 2;
          left_buffer = (if bases mod 2 = 0 then left_buffer - 1 else left_buffer);
          right_buffer = bases - left_buffer - mutation_bases
      in (SequenceRange_new chromosome (start - left_buffer) start,
          (SequenceRange_new chromosome start end)
            \<lparr>sr_mutation := True, sr_reverse_complement := (strand spec = ''-'')\<rparr>,
          SequenceRange_new chromosome end (end + right_buffer)))"

section \<open>The statement grammar: _STATEMENT_REGEX and _parse\<close>

text \<open>
  The fragment of Python's regular expressions that \<open>_STATEMENT_REGEX\<close> uses: a literal
  character, a character class, a greedy \<open>*\<close> or \<open>+\<close> over a character class, sequence,
  alternation and a capturing group. Characters are Isabelle's 8-bit \<open>char\<close>, so a
  statement is read as text of code points below 256.
\<close>

datatype regex =
    Eps
  | Lit char
  | Cls "char \<Rightarrow> bool"
  | Star "char \<Rightarrow> bool"
  | Plus "char \<Rightarrow> bool"
  | Seq regex regex
  | Alt regex regex
  | Group regex

text \<open>
  The backtracking matcher. \<open>rmatch r s\<close> lists, in the order in which Python's engine
  tries them, the ways \<open>r\<close> matches a prefix of \<open>s\<close>: the groups captured and the rest of
  the input. A greedy repetition tries the longest run first; an alternation tries its
  left branch first; a sequence tries every continuation of one match of its head before
  the next match of its head. A group records the text its body consumed.
\<close>

fun rmatch :: "regex \<Rightarrow> string \<Rightarrow> (string list \<times> string) list" where
  "rmatch Eps s = [([], s)]"
| "rmatch (Lit c) s = (case s of [] \<Rightarrow> [] | x # xs \<Rightarrow> if x = c then [([], xs)] else [])"
| "rmatch (Cls P) s = (case s of [] \<Rightarrow> [] | x # xs \<Rightarrow> if P x then [([], xs)] else [])"
| "rmatch (Star P) s = map (\<lambda>k. ([], drop k s)) (rev [0..<Suc (length (takeWhile P s))])"
| "rmatch (Plus P) s = map (\<lambda>k. ([], drop k s)) (rev [1..<Suc (length (takeWhile P s))])"
| "rmatch (Seq a b) s =
     concat (map (\<lambda>(g1, r1). map (\<lambda>(g2, r2). (g1 @ g2, r2)) (rmatch b r1)) (rmatch a s))"
| "rmatch (Alt a b) s = rmatch a s @ rmatch b s"
| "rmatch (Group a) s = map (\<lambda>(g, r). (take (length s - length r) s # g, r)) (rmatch a s)"

text \<open>\<open>pattern.match(string)\<close>: the first match at the start of the string, and its groups.
  Nothing anchors the match at the end of the string.\<close>

definition re_match :: "regex \<Rightarrow> string \<Rightarrow> string list option" where
  "re_match r s = (case rmatch r s of [] \<Rightarrow> None | (groups, rest) # _ \<Rightarrow> Some groups)"

fun seqs :: "regex list \<Rightarrow> regex" where
  "seqs [] = Eps"
| "seqs [r] = r"
| "seqs (r # rs) = Seq r (seqs rs)"

text \<open>\<open>\s\<close> on a \<open>str\<close> pattern is Unicode whitespace; below code point 256 these are
  9 to 13, 28 to 32, 133 and 160.\<close>

definition is_space :: "char \<Rightarrow> bool" where
  "is_space c = (of_char c \<in> set [9, 10, 11, 12, 13, 28, 29, 30, 31, 32, 133, 160 :: nat])"

definition is_digit :: "char \<Rightarrow> bool" where
  "is_digit c = (CHR ''0'' \<le> c \<and> c \<le> CHR ''9'')"

definition is_gene_char :: "char \<Rightarrow> bool" where
  "is_gene_char c =
     ((CHR ''a'' \<le> c \<and> c \<le> CHR ''z'') \<or> (CHR ''A'' \<le> c \<and> c \<le> CHR ''Z'') \<or>
      (CHR ''0'' \<le> c \<and> c \<le> CHR ''9'') \<or> c \<in> set ''_./-'')"

definition is_base_letter :: "char \<Rightarrow> bool" where
  "is_base_letter c = (c \<in> set ''ACGTacgt'')"

text \<open>\<open>.\<close> without DOTALL: any character but the newline.\<close>

definition is_not_newline :: "char \<Rightarrow> bool" where
  "is_not_newline c = (c \<noteq> CHR 0x0A)"

definition STATEMENT_REGEX :: regex where
  "STATEMENT_REGEX = seqs
     [Star is_space,
      Group (Plus is_gene_char),
      Star is_space,
      Lit CHR '':'',
      Star is_space,
      Lit CHR ''c'', Lit CHR ''.'',
      Group (Plus is_digit),
      Star is_space,
      Group (Cls is_base_letter),
      Star is_space,
      Lit CHR ''>'',
      Star is_space,
      Group (Cls is_base_letter),
      Star is_space,
      Lit CHR ''/'',
      Star is_space,
      Group (Plus is_digit),
      Star is_space,
      Group (Alt (seqs [Lit CHR ''-'', Lit CHR ''-'', Star is_not_newline]) (Star is_space))]"

text \<open>
  \<open>int(s)\<close> on the text of a \<open>[0-9]+\<close> group. Python's \<open>int\<close> reads more than that (a
  sign, surrounding blanks, underscores); those forms are mapped to the ValueError of the
  forms it refuses, and lemma \<open>parse_no_ValueError\<close> shows that \<open>_parse\<close> never gets there.
  The limit that Python 3.11 and later put on the number of digits is not modelled.
\<close>

definition py_int :: "string \<Rightarrow> int option" where
  "py_int s =
     (if s \<noteq> [] \<and> list_all is_digit s
      then Some (foldl (\<lambda>a c. 10 * a + (int (of_char c) - 48)) 0 s)
      else None)"

definition parse :: "string \<Rightarrow> exn + partial_spec" where
  "parse statement =
     (case re_match STATEMENT_REGEX statement of
        None \<Rightarrow> Inl InvalidStatement
      | Some groups \<Rightarrow>
          (case groups of
             [gene', base', reference', mutation', bases', comment'] \<Rightarrow>
               (case py_int base' of
                  None \<Rightarrow> Inl ValueError
                | Some base_int \<Rightarrow>
                    (case py_int bases' of
                       None \<Rightarrow> Inl ValueError
                     | Some bases_int \<Rightarrow>
                         Inr \<lparr>gene = gene', base = base_int, reference = reference',
                              mutation = mutation', bases = bases_int, comment = comment'\<rparr>))
           | _ \<Rightarrow> Inl ValueError))"

section \<open>GeneSnpProbe.explode\<close>

text \<open>
  Modelled from the spec: the class \<open>transcript.Transcript\<close> is not among the sources.
  The spec gives it a name, a chromosome, a strand and the operation
  \<open>nucleotideIndex(codingPosition) -> GenomicRange | OutOfRange\<close>; the source reads the
  attributes \<open>name\<close>, \<open>chromosome\<close>, \<open>plus_strand\<close> and calls \<open>nucleotide_index\<close>.
  \<open>Inl msg\<close> is \<open>raise OutOfRange(msg)\<close>, the only failure the spec gives the operation.
\<close>

record Transcript =
  name :: string
  txt_chromosome :: string
  plus_strand :: bool
  nucleotide_index :: "int \<Rightarrow> string + SequenceRange"

text \<open>
  Modelled from the spec: \<open>annotation.lookup_gene\<close> is not among the sources. The spec
  gives \<open>AnnotationIndex.lookupGene(geneSymbol)\<close> as a finite, possibly empty, ordered
  sequence of the transcripts of that gene symbol. The annotation is a list of rows, each
  a gene symbol with its transcript, and the lookup keeps the rows of the symbol, in order.
\<close>

type_synonym annotation = "(string \<times> Transcript) list"

definition lookup_gene :: "string \<Rightarrow> annotation \<Rightarrow> Transcript list" where
  "lookup_gene gene_name genome_annotation =
     map snd (filter (\<lambda>row. fst row = gene_name) genome_annotation)"

text \<open>What the program prints to stderr: each message is the format string of the source
  with its arguments.\<close>

datatype message =
    InStatement string string
      \<comment> \<open>\<open>"{} in statement: {!r}".format(error, statement)\<close>\<close>
  | Skipping string
      \<comment> \<open>\<open>"{}. Skipping...".format(error)\<close>\<close>
  | Redundant string string string
      \<comment> \<open>\<open>"{} {} {} appears to be redundant. Skipping..."\<close>\<close>

text \<open>The variables of \<open>explode\<close> that its loop updates.\<close>

record explode_state =
  var_partial_spec :: partial_spec
  cached_coordinates :: "(string \<times> SequenceRange) set"
  probes :: "probe_spec list"
  stderr :: "message list"

text \<open>
  One pass of the loop body, for the transcript \<open>txt\<close>. The function
  \<open>sequence.reverse_complement\<close> that \<open>gene_snp_probe.py\<close> imports is not among the
  sources and is the parameter \<open>rc\<close>. The assignment to \<open>partial_spec["mutation"]\<close>
  updates the dictionary that every later pass reads.
\<close>

definition explode_step ::
  "(string \<Rightarrow> string) \<Rightarrow> string \<Rightarrow> explode_state \<Rightarrow> Transcript \<Rightarrow> explode_state" where
  "explode_step rc statement st txt =
     (let base = base (var_partial_spec st);
          st = (if \<not> plus_strand txt
                then st\<lparr>var_partial_spec :=
                         (var_partial_spec st)\<lparr>mutation := rc (mutation (var_partial_spec st))\<rparr>\<rparr>
                else st);
          partial_spec = var_partial_spec st
      in case nucleotide_index txt base of
           Inl error \<Rightarrow> st\<lparr>stderr := stderr st @ [InStatement error statement]\<rparr>
         | Inr index' \<Rightarrow>
             (let chromosome = txt_chromosome txt
              in if (chromosome, index') \<notin> cached_coordinates st
                 then st\<lparr>cached_coordinates := insert (chromosome, index') (cached_coordinates st),
                         probes := probes st @
                           [\<lparr>gene = gene partial_spec, base = partial_spec.base partial_spec,
                             reference = reference partial_spec,
                             mutation = mutation partial_spec,
                             bases = bases partial_spec, comment = comment partial_spec,
                             strand = (if plus_strand txt then ''+'' else ''-''),
                             chromosome = chromosome,
                             transcript = name txt,
                             index = index',
                             index_base = sr_start index' + 1\<rparr>]\<rparr>
                 else st))"

definition explode_loop ::
  "(string \<Rightarrow> string) \<Rightarrow> string \<Rightarrow> partial_spec \<Rightarrow> Transcript list \<Rightarrow> explode_state" where
  "explode_loop rc statement partial_spec transcripts =
     foldl (explode_step rc statement)
       \<lparr>var_partial_spec = partial_spec, cached_coordinates = {}, probes = [], stderr = []\<rparr>
       transcripts"

text \<open>\<open>explode(statement, genome_annotation=None)\<close>: the probes returned and the lines
  printed to stderr, or the exception \<open>_parse\<close> raises.\<close>

definition explode ::
  "(string \<Rightarrow> string) \<Rightarrow> string \<Rightarrow> annotation option \<Rightarrow> exn + probe_spec list \<times> message list" where
  "explode rc statement genome_annotation =
     (let genome_annotation = (case genome_annotation of None \<Rightarrow> [] | Some a \<Rightarrow> a)
      in case parse statement of
           Inl e \<Rightarrow> Inl e
         | Inr partial_spec \<Rightarrow>
             (let transcripts = lookup_gene (gene partial_spec) genome_annotation;
                  st = explode_loop rc statement partial_spec transcripts
              in Inr (probes st, stderr st)))"

section \<open>print_probes.dict_hash and get_sequences\<close>

text \<open>
  A Python dictionary is its list of items in insertion order, with no key twice.
  \<open>sorted(dictionary.items())\<close> compares the items as tuples; two items of one dictionary
  differ in their keys, so the comparison is decided by the keys and the values are never
  compared. Python's \<open>hash\<close> is the parameter \<open>hash\<close>: a function of the sorted tuple.
\<close>

definition dict_hash :: "(('k::linorder \<times> 'v) list \<Rightarrow> 'h) \<Rightarrow> ('k \<times> 'v) list \<Rightarrow> 'h" where
  "dict_hash hash dictionary = hash (sort_key fst dictionary)"

text \<open>The values of a coordinate dictionary: chromosome names, positions and flags.\<close>

datatype pyval = PStr string | PInt int | PBool bool

type_synonym coordinate = "(string \<times> pyval) list"

type_synonym row = "(string \<times> string) list"

text \<open>\<open>d[k]\<close>, which raises KeyError for a key that is absent.\<close>

definition getitem :: "(string \<times> 'v) list \<Rightarrow> string \<Rightarrow> exn + 'v" where
  "getitem d k = (case map_of d k of None \<Rightarrow> Inl (KeyError k) | Some v \<Rightarrow> Inr v)"

text \<open>The truth value of an object in an \<open>if\<close>.\<close>

fun truthy :: "pyval \<Rightarrow> bool" where
  "truthy (PStr s) = (s \<noteq> [])"
| "truthy (PInt n) = (n \<noteq> 0)"
| "truthy (PBool b) = b"

text \<open>
  The functions of other modules that \<open>get_sequences\<close> and the functions it calls use,
  none of them among the sources, as parameters: \<open>sequence.sequence_range\<close>,
  \<open>reference.bases\<close>, \<open>probe_statement.to_string\<close>,
  \<open>coordinate_statement.breakpoint_string\<close> and the builtin \<open>hash\<close> on a tuple of items.
\<close>

record ('spec, 'genome) collaborators =
  sequence_range :: "'spec \<Rightarrow> row \<Rightarrow> row \<Rightarrow> exn + coordinate"
  reference_bases :: "'genome \<Rightarrow> pyval \<Rightarrow> pyval \<Rightarrow> pyval \<Rightarrow> exn + string"
  to_string :: "'spec \<Rightarrow> string"
  breakpoint_string :: "coordinate \<Rightarrow> string"
  py_hash :: "coordinate \<Rightarrow> int"

definition bases_from_coordinate ::
  "('genome \<Rightarrow> pyval \<Rightarrow> pyval \<Rightarrow> pyval \<Rightarrow> exn + string) \<Rightarrow> coordinate \<Rightarrow> 'genome \<Rightarrow> exn + string" where
  "bases_from_coordinate bases_of coordinate ref_genome =
     (case getitem coordinate ''chromosome1'' of Inl e \<Rightarrow> Inl e | Inr chromosome1 \<Rightarrow>
     (case getitem coordinate ''start1'' of Inl e \<Rightarrow> Inl e | Inr start1 \<Rightarrow>
     (case getitem coordinate ''end1'' of Inl e \<Rightarrow> Inl e | Inr end1 \<Rightarrow>
     (case bases_of ref_genome chromosome1 start1 end1 of Inl e \<Rightarrow> Inl e | Inr first_bases \<Rightarrow>
     (case getitem coordinate ''chromosome2'' of Inl e \<Rightarrow> Inl e | Inr chromosome2 \<Rightarrow>
     (case getitem coordinate ''start2'' of Inl e \<Rightarrow> Inl e | Inr start2 \<Rightarrow>
     (case getitem coordinate ''end2'' of Inl e \<Rightarrow> Inl e | Inr end2 \<Rightarrow>
     (case bases_of ref_genome chromosome2 start2 end2 of Inl e \<Rightarrow> Inl e | Inr second_bases \<Rightarrow>
     (case getitem coordinate ''rc_side_1'' of Inl e \<Rightarrow> Inl e | Inr rc_side_1 \<Rightarrow>
     (let first_bases = (if truthy rc_side_1 then reverse_complement first_bases else first_bases)
      in (case getitem coordinate ''rc_side_2'' of Inl e \<Rightarrow> Inl e | Inr rc_side_2 \<Rightarrow>
         (let second_bases =
                (if truthy rc_side_2 then reverse_complement second_bases else second_bases)
          in Inr (first_bases @ second_bases)))))))))))))"

text \<open>\<open>"{}_{}_{}_{}".format(...)\<close>, its four arguments evaluated in order.\<close>

definition probe_name ::
  "('spec, 'genome) collaborators \<Rightarrow> 'spec \<Rightarrow> coordinate \<Rightarrow> row \<Rightarrow> row \<Rightarrow> exn + string" where
  "probe_name env specification coordinates left_row right_row =
     (case getitem left_row ''name'' of Inl e \<Rightarrow> Inl e | Inr left_name \<Rightarrow>
     (case getitem right_row ''name'' of Inl e \<Rightarrow> Inl e | Inr right_name \<Rightarrow>
      Inr (to_string env specification @ ''_'' @ breakpoint_string env coordinates @ ''_'' @
           left_name @ ''_'' @ right_name)))"

text \<open>
  The variables of \<open>get_sequences\<close>. \<open>coordinate\<close> and \<open>bases\<close> are assigned inside the
  \<open>try\<close> block and keep their value from one pass of the loop to the next; \<open>None\<close> is a
  variable that has not been assigned yet. \<open>yielded\<close> is what the generator has produced.
\<close>

record gs_state =
  var_coordinate :: "coordinate option"
  var_bases :: "string option"
  cached_coords :: "int set"
  yielded :: "(string \<times> string) list"
  gs_stderr :: "message list"

fun exn_str :: "exn \<Rightarrow> string" where
  "exn_str InvalidStatement = []"
| "exn_str ValueError = []"
| "exn_str (KeyError m) = m"
| "exn_str (UnboundLocalError m) = m"
| "exn_str (OutOfRange m) = m"
| "exn_str (NoFeatureError m) = m"
| "exn_str (MissingChromosome m) = m"

text \<open>\<open>except (sequence.NoFeatureError, reference.MissingChromosome)\<close>.\<close>

fun caught :: "exn \<Rightarrow> bool" where
  "caught (NoFeatureError m) = True"
| "caught (MissingChromosome m) = True"
| "caught e = False"

text \<open>
  The \<open>try\<close> block: the two assignments, and the exception that interrupted them. An
  assignment that was reached before the exception stays.
\<close>

definition try_block ::
  "('spec, 'genome) collaborators \<Rightarrow> 'genome \<Rightarrow> gs_state \<Rightarrow> 'spec \<times> row \<times> row \<Rightarrow>
     gs_state \<times> exn option" where
  "try_block env genome st statement =
     (case statement of (spec, left_row, right_row) \<Rightarrow>
        (case sequence_range env spec left_row right_row of
           Inl e \<Rightarrow> (st, Some e)
         | Inr coordinate \<Rightarrow>
             (let st = st\<lparr>var_coordinate := Some coordinate\<rparr>
              in case bases_from_coordinate (reference_bases env) coordinate genome of
                   Inl e \<Rightarrow> (st, Some e)
                 | Inr bases' \<Rightarrow> (st\<lparr>var_bases := Some bases'\<rparr>, None))))"

text \<open>
  The statements after the \<open>try\<close>, which run after the block and also after its
  \<open>except\<close> clause: the clause prints and does not leave the pass.
\<close>

definition after_try ::
  "('spec, 'genome) collaborators \<Rightarrow> gs_state \<Rightarrow> 'spec \<times> row \<times> row \<Rightarrow> gs_state \<times> exn option" where
  "after_try env st statement =
     (case statement of (spec, left_row, right_row) \<Rightarrow>
        (case var_coordinate st of
           None \<Rightarrow> (st, Some (UnboundLocalError ''coordinate''))
         | Some coordinate \<Rightarrow>
             (let coord_hash = dict_hash (py_hash env) coordinate
              in if coord_hash \<notin> cached_coords st
                 then (let st = st\<lparr>cached_coords := insert coord_hash (cached_coords st)\<rparr>
                       in case probe_name env spec coordinate left_row right_row of
                            Inl e \<Rightarrow> (st, Some e)
                          | Inr head \<Rightarrow>
                              (case var_bases st of
                                 None \<Rightarrow> (st, Some (UnboundLocalError ''bases''))
                               | Some bases' \<Rightarrow> (st\<lparr>yielded := yielded st @ [(head, bases')]\<rparr>, None)))
                 else (case getitem left_row ''name'' of Inl e \<Rightarrow> (st, Some e) | Inr left_name \<Rightarrow>
                      (case getitem right_row ''name'' of Inl e \<Rightarrow> (st, Some e) | Inr right_name \<Rightarrow>
                       (st\<lparr>gs_stderr := gs_stderr st @
                              [Redundant (to_string env spec) left_name right_name]\<rparr>, None))))))"

definition get_sequences_step ::
  "('spec, 'genome) collaborators \<Rightarrow> 'genome \<Rightarrow> gs_state \<Rightarrow> 'spec \<times> row \<times> row \<Rightarrow>
     gs_state \<times> exn option" where
  "get_sequences_step env genome st statement =
     (case try_block env genome st statement of
        (st, None) \<Rightarrow> after_try env st statement
      | (st, Some error) \<Rightarrow>
          if caught error
          then after_try env (st\<lparr>gs_stderr := gs_stderr st @ [Skipping (exn_str error)]\<rparr>) statement
          else (st, Some error))"

text \<open>The loop over the statements. An exception that nothing catches ends the generator:
  the statements after it are not read.\<close>

fun get_sequences_loop ::
  "('spec, 'genome) collaborators \<Rightarrow> 'genome \<Rightarrow> gs_state \<Rightarrow> ('spec \<times> row \<times> row) list \<Rightarrow>
     gs_state \<times> exn option" where
  "get_sequences_loop env genome st [] = (st, None)"
| "get_sequences_loop env genome st (statement # statements) =
     (case get_sequences_step env genome st statement of
        (st, None) \<Rightarrow> get_sequences_loop env genome st statements
      | (st, Some error) \<Rightarrow> (st, Some error))"

text \<open>\<open>get_sequences(statements, genome)\<close>: the pairs yielded, the lines printed to stderr,
  and the exception that ended the generator, if one did.\<close>

definition get_sequences ::
  "('spec, 'genome) collaborators \<Rightarrow> ('spec \<times> row \<times> row) list \<Rightarrow> 'genome \<Rightarrow>
     (string \<times> string) list \<times> message list \<times> exn option" where
  "get_sequences env statements genome =
     (case get_sequences_loop env genome
             \<lparr>var_coordinate = None, var_bases = None, cached_coords = {},
              yielded = [], gs_stderr = []\<rparr> statements of
        (st, error) \<Rightarrow> (yielded st, gs_stderr st, error))"

section \<open>Predicates and examples for the statements about explode\<close>

text \<open>
  The transcript \<open>t\<close> resolves the coding position \<open>b\<close> to the coordinate pair
  \<open>(c, i)\<close>; the probe \<open>p\<close> is at the coordinate pair \<open>(c, i)\<close>.
\<close>

definition maps_to :: "int \<Rightarrow> string \<Rightarrow> SequenceRange \<Rightarrow> Transcript \<Rightarrow> bool" where
  "maps_to b c i t = (txt_chromosome t = c \<and> nucleotide_index t b = Inr i)"

definition at_coordinate :: "string \<Rightarrow> SequenceRange \<Rightarrow> probe_spec \<Rightarrow> bool" where
  "at_coordinate c i p = (chromosome p = c \<and> index p = i)"

text \<open>
  A transcript for the examples: coding positions 1 to \<open>len\<close>, one genomic base each,
  counted up from \<open>first\<close> on the plus strand and down from \<open>first + len - 1\<close> on the
  minus strand; any other position is out of range.
\<close>

definition example_transcript :: "string \<Rightarrow> string \<Rightarrow> bool \<Rightarrow> int \<Rightarrow> int \<Rightarrow> Transcript" where
  "example_transcript nm chrom forward first len =
     \<lparr>name = nm, txt_chromosome = chrom, plus_strand = forward,
      nucleotide_index = (\<lambda>b.
        if 1 \<le> b \<and> b \<le> len
        then (let pos = (if forward then first + b - 1 else first + len - b)
              in Inr (SequenceRange_new chrom pos (pos + 1)))
        else Inl ''base outside the range of the transcript'')\<rparr>"

definition example_strands :: annotation where
  "example_strands =
     [(''TP53'', example_transcript ''tx1'' ''chr17'' False 100 50),
      (''TP53'', example_transcript ''tx2'' ''chr17'' True 200 50),
      (''TP53'', example_transcript ''tx3'' ''chr17'' False 300 50)]"

definition example_annotation :: annotation where
  "example_annotation =
     [(''TP53'', example_transcript ''tx1'' ''chr17'' False 100 50),
      (''BRCA1'', example_transcript ''tx9'' ''chr17'' True 900 50),
      (''TP53'', example_transcript ''tx2'' ''chr17'' True 200 3),
      (''TP53'', example_transcript ''tx3'' ''chr17'' True 141 50),
      (''TP53'', example_transcript ''tx4'' ''chr17'' True 400 50)]"

section \<open>Examples for the statements about get_sequences\<close>

text \<open>
  Collaborators for the examples. A row names its chromosome under \<open>chrom\<close>; a row
  without one has no feature. The genome is a dictionary from chromosome names to their
  bases, and a chromosome that is not in it is missing. The hash is left open.
\<close>

definition example_coordinate :: "string \<Rightarrow> string \<Rightarrow> coordinate" where
  "example_coordinate c1 c2 =
     [(''chromosome1'', PStr c1), (''start1'', PInt 0), (''end1'', PInt 4),
      (''chromosome2'', PStr c2), (''start2'', PInt 2), (''end2'', PInt 6),
      (''rc_side_1'', PBool False), (''rc_side_2'', PBool True)]"

definition example_sequence_range :: "string \<Rightarrow> row \<Rightarrow> row \<Rightarrow> exn + coordinate" where
  "example_sequence_range spec left_row right_row =
     (case (map_of left_row ''chrom'', map_of right_row ''chrom'') of
        (Some c1, Some c2) \<Rightarrow> Inr (example_coordinate c1 c2)
      | _ \<Rightarrow> Inl (NoFeatureError ''no feature''))"

definition example_reference_bases ::
  "(string \<times> string) list \<Rightarrow> pyval \<Rightarrow> pyval \<Rightarrow> pyval \<Rightarrow> exn + string" where
  "example_reference_bases genome c s e =
     (case (c, s, e) of
        (PStr c', PInt s', PInt e') \<Rightarrow>
          (case map_of genome c' of
             None \<Rightarrow> Inl (MissingChromosome c')
           | Some sequence \<Rightarrow> Inr (take (nat (e' - s')) (drop (nat s') sequence)))
      | _ \<Rightarrow> Inl ValueError)"

definition example_env :: "(coordinate \<Rightarrow> int) \<Rightarrow> (string, (string \<times> string) list) collaborators" where
  "example_env h =
     \<lparr>sequence_range = example_sequence_range,
      reference_bases = example_reference_bases,
      to_string = (\<lambda>spec. spec),
      breakpoint_string = (\<lambda>c. ''bp''),
      py_hash = h\<rparr>"

definition example_genome :: "(string \<times> string) list" where
  "example_genome = [(''chr1'', ''ACGTACGTAC''), (''chr2'', ''TTTTGGGGCC'')]"

definition good_statement :: "string \<times> row \<times> row" where
  "good_statement =
     (''A-B'', [(''name'', ''A''), (''chrom'', ''chr1'')], [(''name'', ''B''), (''chrom'', ''chr2'')])"

definition missing_chromosome_statement :: "string \<times> row \<times> row" where
  "missing_chromosome_statement =
     (''A-C'', [(''name'', ''A''), (''chrom'', ''chr1'')], [(''name'', ''C''), (''chrom'', ''chr9'')])"

definition no_feature_statement :: "string \<times> row \<times> row" where
  "no_feature_statement =
     (''D-B'', [(''name'', ''D'')], [(''name'', ''B''), (''chrom'', ''chr2'')])"



section \<open>Properties of get_ranges\<close>

text \<open>
  Claim C1. With \<open>leftBuffer = bases // 2\<close>, less one when \<open>bases\<close> is even, and
  \<open>rightBuffer = bases - leftBuffer - mutationBases\<close>, the three lengths add up to
  \<open>bases\<close>, and \<open>get_ranges\<close> returns the left flank \<open>[start - leftBuffer, start)\<close>, the
  mutation site \<open>[start, end)\<close> flagged as mutation and flagged for reverse complement
  iff the strand is minus, and the right flank \<open>[end, end + rightBuffer)\<close>. This holds
  for every \<open>bases\<close> and every mutation length, so in particular for even and odd
  \<open>bases\<close> and mutation lengths 1, 2 and 3.
\<close>

theorem get_ranges_buffers:
  "(let mutationBases = int (length (mutation spec));
        leftBuffer = (if even (bases spec) then bases spec div 2 - 1 else bases spec div 2);
        rightBuffer = bases spec - leftBuffer - mutationBases;
        start = sr_start (index spec);
        end = sr_end (index spec)
    in leftBuffer + mutationBases + rightBuffer = bases spec \<and>
       get_ranges spec =
         (\<lparr>sr_chromosome = chromosome spec, sr_start = start - leftBuffer, sr_end = start,
            sr_mutation = False, sr_reverse_complement = False\<rparr>,
          \<lparr>sr_chromosome = chromosome spec, sr_start = start, sr_end = end,
            sr_mutation = True, sr_reverse_complement = (strand spec = ''-'')\<rparr>,
          \<lparr>sr_chromosome = chromosome spec, sr_start = end, sr_end = end + rightBuffer,
            sr_mutation = False, sr_reverse_complement = False\<rparr>))"
  by (simp add: get_ranges_def SequenceRange_new_def Let_def even_iff_mod_2_eq_zero)

section \<open>Properties of reverse_complement\<close>

lemma complement_char_involution:
  "(case map_of COMPLEMENT (case map_of COMPLEMENT c of None \<Rightarrow> c | Some d \<Rightarrow> d) of
      None \<Rightarrow> (case map_of COMPLEMENT c of None \<Rightarrow> c | Some d \<Rightarrow> d)
    | Some d \<Rightarrow> d) = c"
  by (simp add: COMPLEMENT_def)

lemma translate_involution: "translate COMPLEMENT (translate COMPLEMENT s) = s"
  by (induction s) (simp_all add: translate_def complement_char_involution)

lemma translate_rev: "translate t (rev s) = rev (translate t s)"
  by (simp add: translate_def rev_map)

lemma reverse_complement_twice: "reverse_complement (reverse_complement s) = s"
  by (simp add: reverse_complement_def translate_rev translate_involution)

lemma length_reverse_complement: "length (reverse_complement s) = length s"
  by (simp add: reverse_complement_def translate_def)

text \<open>
  Claim C9. On every string over the alphabet \<open>acgtACGT\<close>, applying
  \<open>reverse_complement\<close> twice gives the string back, and one application keeps its
  length.
\<close>

theorem reverse_complement_involution:
  "set s \<subseteq> set ''acgtACGT'' \<Longrightarrow>
     reverse_complement (reverse_complement s) = s \<and>
     length (reverse_complement s) = length s"
  by (simp add: reverse_complement_twice length_reverse_complement)

theorem reverse_complement_involution_witness:
  "set ''GATTaca'' \<subseteq> set ''acgtACGT'' \<and>
   reverse_complement ''GATTaca'' = ''tgtAATC'' \<and>
   reverse_complement (reverse_complement ''GATTaca'') = ''GATTaca'' \<and>
   length (reverse_complement ''GATTaca'') = length ''GATTaca''"
  using reverse_complement_involution [of "''GATTaca''"]
  by (simp add: reverse_complement_def translate_def COMPLEMENT_def)

section \<open>Properties of the statement grammar\<close>

text \<open>What a match of each part of the pattern captures.\<close>

lemma rmatch_SeqE:
  assumes "(gs, r) \<in> set (rmatch (Seq a b) s)"
  obtains g1 r1 g2 where "(g1, r1) \<in> set (rmatch a s)" "(g2, r) \<in> set (rmatch b r1)" "gs = g1 @ g2"
  using assms by auto

lemma rmatch_Lit_groups: "(gs, r) \<in> set (rmatch (Lit c) s) \<Longrightarrow> gs = []"
  by (auto split: list.splits if_splits)

lemma rmatch_Star_groups: "(gs, r) \<in> set (rmatch (Star P) s) \<Longrightarrow> gs = []"
  by auto

lemma take_takeWhile_all: "k \<le> length (takeWhile P s) \<Longrightarrow> list_all P (take k s)"
proof -
  assume k: "k \<le> length (takeWhile P s)"
  have "take k (takeWhile P s @ dropWhile P s) = take k (takeWhile P s)"
    using k by (simp del: takeWhile_dropWhile_id)
  then have "take k s = take k (takeWhile P s)" by simp
  then have "set (take k s) \<subseteq> set (takeWhile P s)" by (simp add: set_take_subset)
  then show ?thesis by (auto simp: list_all_iff dest: set_takeWhileD)
qed

lemma rmatch_Group_Plus:
  assumes "(gs, r) \<in> set (rmatch (Group (Plus P)) s)"
  shows "\<exists>w. gs = [w] \<and> w \<noteq> [] \<and> list_all P w"
proof -
  from assms obtain k where k: "1 \<le> k" "k \<le> length (takeWhile P s)"
    and r: "r = drop k s" and gs: "gs = [take (length s - length r) s]"
    by auto
  have "length (takeWhile P s) \<le> length s" by (rule length_takeWhile_le)
  with k have ks: "k \<le> length s" by simp
  then have "length s - length r = k" using r by simp
  with gs have g: "gs = [take k s]" by simp
  have "take k s \<noteq> []" using k ks by auto
  moreover have "list_all P (take k s)" using k(2) by (rule take_takeWhile_all)
  ultimately show ?thesis using g by simp
qed

lemma rmatch_Group_Cls: "(gs, r) \<in> set (rmatch (Group (Cls P)) s) \<Longrightarrow> \<exists>w. gs = [w]"
  by (auto split: list.splits if_splits)

lemma rmatch_comment_group:
  "(gs, r) \<in> set (rmatch (Group (Alt (seqs [Lit c, Lit d, Star P]) (Star Q))) s) \<Longrightarrow> \<exists>w. gs = [w]"
  by (auto split: list.splits if_splits)

lemma STATEMENT_REGEX_groups:
  assumes "(gs, r) \<in> set (rmatch STATEMENT_REGEX s)"
  shows "\<exists>g1 g2 g3 g4 g5 g6. gs = [g1, g2, g3, g4, g5, g6] \<and>
           g2 \<noteq> [] \<and> list_all is_digit g2 \<and> g5 \<noteq> [] \<and> list_all is_digit g5"
  using assms unfolding STATEMENT_REGEX_def seqs.simps
  apply (elim rmatch_SeqE)
  apply (drule rmatch_Lit_groups rmatch_Star_groups rmatch_Group_Cls rmatch_comment_group [simplified seqs.simps] rmatch_Group_Plus)+
  apply (elim exE conjE)
  apply simp
  done

lemma py_int_digits: "s \<noteq> [] \<Longrightarrow> list_all is_digit s \<Longrightarrow> \<exists>n. py_int s = Some n"
  by (simp add: py_int_def)

lemma parse_no_ValueError: "parse s \<noteq> Inl ValueError"
proof (cases "rmatch STATEMENT_REGEX s")
  case Nil
  then show ?thesis by (simp add: parse_def re_match_def)
next
  case (Cons m ms)
  obtain gs r where m: "m = (gs, r)" by (cases m)
  with Cons have "(gs, r) \<in> set (rmatch STATEMENT_REGEX s)" by simp
  from STATEMENT_REGEX_groups [OF this] obtain g1 g2 g3 g4 g5 g6 where
    gs: "gs = [g1, g2, g3, g4, g5, g6]" and
    d: "g2 \<noteq> []" "list_all is_digit g2" "g5 \<noteq> []" "list_all is_digit g5" by blast
  from d obtain n2 n5 where "py_int g2 = Some n2" "py_int g5 = Some n5"
    using py_int_digits by blast
  then show ?thesis using Cons m gs by (simp add: parse_def re_match_def)
qed

lemma foldl_digits_nonneg: "0 \<le> a \<Longrightarrow> list_all is_digit s \<Longrightarrow>
   0 \<le> foldl (\<lambda>a c. 10 * a + (int (of_char c) - 48)) a s"
proof (induction s arbitrary: a)
  case Nil then show ?case by simp
next
  case (Cons c s)
  from Cons.prems have "is_digit c" by simp
  then have "48 \<le> (of_char c :: nat)" by (simp add: is_digit_def less_eq_char_def)
  then have "0 \<le> 10 * a + (int (of_char c) - 48)" using Cons.prems by simp
  then show ?case using Cons by simp
qed

lemma py_int_nonneg: "py_int s = Some n \<Longrightarrow> 0 \<le> n"
  by (auto simp: py_int_def foldl_digits_nonneg split: if_splits)

text \<open>The grammar on a statement with blanks and a comment, and on the malformed
  statements of the spec: no \<open>c.\<close> marker, a reference of two letters, no \<open>/bases\<close>
  suffix, a letter where the position starts.\<close>

lemma parse_with_comment:
  "parse '' BRCA1 : c.150 A > G / 21  -- a comment'' =
     Inr \<lparr>gene = ''BRCA1'', base = 150, reference = ''A'', mutation = ''G'',
          bases = 21, comment = ''-- a comment''\<rparr>"
  by code_simp

lemma parse_rejections:
  "parse ''BRCA1:150A>G/21'' = Inl InvalidStatement \<and>
   parse ''BRCA1:c.150AA>G/21'' = Inl InvalidStatement \<and>
   parse ''BRCA1:c.150A>G'' = Inl InvalidStatement \<and>
   parse ''BRCA1:c.x150A>G/21'' = Inl InvalidStatement"
  by code_simp

text \<open>
  Claim C5. The claim says that extra tokens after the statement, which are neither a
  \<open>--\<close> comment nor trailing whitespace, make \<open>_parse\<close> raise InvalidStatement. The
  pattern is applied with \<open>match\<close>, which anchors it at the start of the line only, and
  its last group matches the empty text: the line \<open>BRCA1:c.150A>G/21 extra\<close> is accepted,
  with an empty comment, and the extra token is dropped.
\<close>

theorem parse_accepts_trailing_tokens:
  "parse ''BRCA1:c.150A>G/21 extra'' =
     Inr \<lparr>gene = ''BRCA1'', base = 150, reference = ''A'', mutation = ''G'',
          bases = 21, comment = []\<rparr>"
  by code_simp

text \<open>
  Claim C8, as stated, fails: the pattern \<open>[0-9]+\<close> matches \<open>0\<close>, so a statement with
  position 0 and length 0 is accepted.
\<close>

theorem parse_zero_counterexample:
  "parse ''A:c.0A>G/0'' =
     Inr \<lparr>gene = ''A'', base = 0, reference = ''A'', mutation = ''G'',
          bases = 0, comment = []\<rparr> \<and>
   \<not> (0 < base \<lparr>gene = ''A'', base = 0, reference = ''A'', mutation = ''G'',
                  bases = 0, comment = []\<rparr>) \<and>
   \<not> (0 < bases \<lparr>gene = ''A'', base = 0, reference = ''A'', mutation = ''G'',
                   bases = 0, comment = []\<rparr>)"
  by code_simp

text \<open>
  Claim C8, amended. For every statement the grammar accepts, the fields \<open>base\<close> and
  \<open>bases\<close> of the result are integers that are not negative; zero is accepted.
\<close>

theorem parse_fields_nonneg: "parse s = Inr p \<Longrightarrow> 0 \<le> base p \<and> 0 \<le> bases p"
  by (auto simp: parse_def split: option.splits list.splits dest: py_int_nonneg)

theorem parse_fields_nonneg_witness:
  "parse ''BRCA1:c.150A>G/21'' =
     Inr \<lparr>gene = ''BRCA1'', base = 150, reference = ''A'', mutation = ''G'',
          bases = 21, comment = []\<rparr> \<and>
   0 \<le> base \<lparr>gene = ''BRCA1'', base = 150, reference = ''A'', mutation = ''G'',
               bases = 21, comment = []\<rparr> \<and>
   0 \<le> bases \<lparr>gene = ''BRCA1'', base = 150, reference = ''A'', mutation = ''G'',
                bases = 21, comment = []\<rparr>"
proof -
  have e: "parse ''BRCA1:c.150A>G/21'' =
     Inr \<lparr>gene = ''BRCA1'', base = 150, reference = ''A'', mutation = ''G'',
          bases = 21, comment = []\<rparr>"
    by code_simp
  show ?thesis using parse_fields_nonneg [OF e] e by simp
qed

section \<open>Properties of explode\<close>

lemma find_append_case: "find P (xs @ ys) = (case find P xs of None \<Rightarrow> find P ys | Some x \<Rightarrow> Some x)"
  by (induction xs) auto

lemma filter_Cons_find: "filter P xs = x # r \<Longrightarrow> find P xs = Some x"
  by (induction xs) (auto split: if_splits)

lemma explode_loop_snoc:
  "explode_loop rc stmt ps (txs @ [t]) = explode_step rc stmt (explode_loop rc stmt ps txs) t"
  by (simp add: explode_loop_def)

lemma explode_loop_base: "base (var_partial_spec (explode_loop rc stmt ps txs)) = base ps"
  by (induction txs rule: rev_induct)
     (simp_all add: explode_loop_def explode_step_def Let_def split: sum.splits)

lemma explode_loop_cache:
  "cached_coordinates (explode_loop rc stmt ps txs) =
     {(c, i). \<exists>t \<in> set txs. maps_to (base ps) c i t}"
proof (induction txs rule: rev_induct)
  case Nil
  then show ?case by (simp add: explode_loop_def)
next
  case (snoc t txs)
  show ?case
    using snoc explode_loop_base [of rc stmt ps txs]
    by (auto simp: explode_loop_snoc explode_step_def Let_def maps_to_def split: sum.splits)
qed



lemma explode_step_fail:
  "nucleotide_index t (base (var_partial_spec st)) = Inl e \<Longrightarrow>
     probes (explode_step rc stmt st t) = probes st"
  by (cases "plus_strand t") (simp_all add: explode_step_def Let_def)

lemma explode_step_seen:
  "nucleotide_index t (base (var_partial_spec st)) = Inr idx \<Longrightarrow>
   (txt_chromosome t, idx) \<in> cached_coordinates st \<Longrightarrow>
     probes (explode_step rc stmt st t) = probes st"
  by (cases "plus_strand t") (simp_all add: explode_step_def Let_def)

lemma explode_step_new:
  "nucleotide_index t (base (var_partial_spec st)) = Inr idx \<Longrightarrow>
   (txt_chromosome t, idx) \<notin> cached_coordinates st \<Longrightarrow>
     \<exists>q. probes (explode_step rc stmt st t) = probes st @ [q] \<and>
         chromosome q = txt_chromosome t \<and> index q = idx \<and> transcript q = name t \<and>
         strand q = (if plus_strand t then ''+'' else ''-'')"
  by (cases "plus_strand t") (simp_all add: explode_step_def Let_def)

lemma explode_loop_probes_at:
  "map (\<lambda>p. (transcript p, strand p))
       (filter (at_coordinate c i) (probes (explode_loop rc stmt ps txs))) =
     (case find (maps_to (base ps) c i) txs of
        None \<Rightarrow> []
      | Some t \<Rightarrow> [(name t, if plus_strand t then ''+'' else ''-'')])"
proof (induction txs rule: rev_induct)
  case Nil
  then show ?case by (simp add: explode_loop_def)
next
  case (snoc t txs)
  let ?st = "explode_loop rc stmt ps txs"
  have b: "base (var_partial_spec ?st) = base ps" by (rule explode_loop_base)
  have cache: "cached_coordinates ?st = {(c, i). \<exists>t \<in> set txs. maps_to (base ps) c i t}"
    by (rule explode_loop_cache)
  show ?case
  proof (cases "nucleotide_index t (base ps)")
    case (Inl e)
    then have "probes (explode_step rc stmt ?st t) = probes ?st"
      using b by (simp add: explode_step_fail)
    moreover have "\<not> maps_to (base ps) c i t" using Inl by (simp add: maps_to_def)
    ultimately show ?thesis
      using snoc by (simp add: explode_loop_snoc find_append_case split: option.splits)
  next
    case (Inr idx)
    show ?thesis
    proof (cases "(txt_chromosome t, idx) \<in> cached_coordinates ?st")
      case True
      then have same: "probes (explode_step rc stmt ?st t) = probes ?st"
        using b Inr by (simp add: explode_step_seen)
      have "find (maps_to (base ps) c i) txs \<noteq> None" if "maps_to (base ps) c i t"
      proof -
        from that Inr have "c = txt_chromosome t" "i = idx" by (auto simp: maps_to_def)
        with True cache obtain t' where "t' \<in> set txs" "maps_to (base ps) c i t'" by auto
        then show ?thesis by (auto simp: find_None_iff)
      qed
      then show ?thesis
        using snoc same by (auto simp: explode_loop_snoc find_append_case split: option.splits)
    next
      case False
      then obtain q where new: "probes (explode_step rc stmt ?st t) = probes ?st @ [q]"
        and q: "chromosome q = txt_chromosome t" "index q = idx" "transcript q = name t"
               "strand q = (if plus_strand t then ''+'' else ''-'')"
        using b Inr explode_step_new [of t ?st idx rc stmt] by auto
      have m: "maps_to (base ps) c i t \<longleftrightarrow> at_coordinate c i q"
        using Inr q by (auto simp: maps_to_def at_coordinate_def)
      have none: "find (maps_to (base ps) c i) txs = None" if "maps_to (base ps) c i t"
      proof -
        from that Inr have "c = txt_chromosome t" "i = idx" by (auto simp: maps_to_def)
        with False cache show ?thesis by (auto simp: find_None_iff)
      qed
      show ?thesis
      proof (cases "maps_to (base ps) c i t")
        case True
        with none have "find (maps_to (base ps) c i) txs = None" by simp
        with True m snoc new q show ?thesis
          by (simp add: explode_loop_snoc find_append_case)
      next
        case False
        with m snoc new show ?thesis
          by (simp add: explode_loop_snoc find_append_case split: option.splits)
      qed
    qed
  qed
qed

lemma explode_loop_stderr:
  "stderr (explode_loop rc stmt ps txs) =
     concat (map (\<lambda>t. case nucleotide_index t (base ps) of
                          Inl e \<Rightarrow> [InStatement e stmt] | Inr i \<Rightarrow> []) txs)"
proof (induction txs rule: rev_induct)
  case Nil
  then show ?case by (simp add: explode_loop_def)
next
  case (snoc t txs)
  then show ?case
    using explode_loop_base [of rc stmt ps txs]
    by (simp add: explode_loop_snoc explode_step_def Let_def split: sum.splits)
qed


lemma parse_example:
  "parse ''TP53:c.5G>A/21'' =
     Inr \<lparr>gene = ''TP53'', base = 5, reference = ''G'', mutation = ''A'',
          bases = 21, comment = []\<rparr>"
  by code_simp

text \<open>
  Claim C2. The claim says that the mutation letter of a probe is the reverse complement
  of the statement's letter exactly when its transcript is on the minus strand, and that
  the reverse complement of one transcript is never applied again to a later one. The
  loop writes the reverse complement back into \<open>partial_spec["mutation"]\<close>, which every
  later pass reads. For the statement \<open>TP53:c.5G>A/21\<close> and three transcripts on the
  minus, plus and minus strand, the plus-strand probe gets \<open>T\<close> instead of \<open>A\<close>, and the
  second minus-strand probe gets \<open>A\<close> instead of \<open>T\<close>.
\<close>

theorem explode_mutation_cumulative:
  "(case explode reverse_complement ''TP53:c.5G>A/21'' (Some example_strands) of
      Inl e \<Rightarrow> []
    | Inr (out, msgs) \<Rightarrow> map (\<lambda>p. (transcript p, strand p, mutation p)) out) =
   [(''tx1'', ''-'', ''T''), (''tx2'', ''+'', ''T''), (''tx3'', ''-'', ''A'')]"
  by code_simp

text \<open>
  Claim C10. On a statement that parses, \<open>explode\<close> without an annotation (the argument
  left out, or \<open>None\<close>) returns the empty list of probes and prints nothing.
\<close>

theorem explode_without_annotation:
  "parse statement = Inr ps \<Longrightarrow> explode rc statement None = Inr ([], [])"
  by (simp add: explode_def explode_loop_def lookup_gene_def)

theorem explode_without_annotation_witness:
  "parse ''TP53:c.5G>A/21'' =
     Inr \<lparr>gene = ''TP53'', base = 5, reference = ''G'', mutation = ''A'',
          bases = 21, comment = []\<rparr> \<and>
   explode reverse_complement ''TP53:c.5G>A/21'' None = Inr ([], [])"
  using explode_without_annotation [OF parse_example] parse_example by simp

text \<open>
  Claim C3. When two or more transcripts of the statement's gene resolve to the same
  coordinate pair \<open>(c, i)\<close>, with \<open>t0\<close> the first of them in the order of the lookup,
  \<open>explode\<close> returns exactly one probe at \<open>(c, i)\<close>, and it carries the name and the
  strand of \<open>t0\<close>.
\<close>

theorem explode_first_transcript_wins:
  assumes "parse statement = Inr ps"
    and "filter (maps_to (base ps) c i) (lookup_gene (gene ps) ann) = t0 # t1 # ts"
  shows "\<exists>out msgs p. explode rc statement (Some ann) = Inr (out, msgs) \<and>
           filter (at_coordinate c i) out = [p] \<and>
           transcript p = name t0 \<and> strand p = (if plus_strand t0 then ''+'' else ''-'')"
proof -
  let ?txs = "lookup_gene (gene ps) ann"
  let ?st = "explode_loop rc statement ps ?txs"
  have ex: "explode rc statement (Some ann) = Inr (probes ?st, stderr ?st)"
    using assms(1) by (simp add: explode_def Let_def)
  have "find (maps_to (base ps) c i) ?txs = Some t0"
    using assms(2) by (rule filter_Cons_find)
  then have "map (\<lambda>p. (transcript p, strand p)) (filter (at_coordinate c i) (probes ?st)) =
               [(name t0, if plus_strand t0 then ''+'' else ''-'')]"
    by (simp add: explode_loop_probes_at)
  then obtain p where "filter (at_coordinate c i) (probes ?st) = [p]"
    "transcript p = name t0" "strand p = (if plus_strand t0 then ''+'' else ''-'')"
    by (auto simp: map_eq_Cons_conv)
  with ex show ?thesis by blast
qed

theorem explode_first_transcript_wins_witness:
  "parse ''TP53:c.5G>A/21'' =
     Inr \<lparr>gene = ''TP53'', base = 5, reference = ''G'', mutation = ''A'',
          bases = 21, comment = []\<rparr> \<and>
   filter (maps_to 5 ''chr17'' (SequenceRange_new ''chr17'' 145 146))
     (lookup_gene ''TP53'' example_annotation) =
     [example_transcript ''tx1'' ''chr17'' False 100 50,
      example_transcript ''tx3'' ''chr17'' True 141 50] \<and>
   (\<exists>out msgs p.
      explode reverse_complement ''TP53:c.5G>A/21'' (Some example_annotation) = Inr (out, msgs) \<and>
      filter (at_coordinate ''chr17'' (SequenceRange_new ''chr17'' 145 146)) out = [p] \<and>
      transcript p = ''tx1'' \<and> strand p = ''-'')"
proof -
  have f: "filter (maps_to 5 ''chr17'' (SequenceRange_new ''chr17'' 145 146))
     (lookup_gene ''TP53'' example_annotation) =
     [example_transcript ''tx1'' ''chr17'' False 100 50,
      example_transcript ''tx3'' ''chr17'' True 141 50]"
    by (simp add: lookup_gene_def example_annotation_def maps_to_def example_transcript_def
        SequenceRange_new_def)
  show ?thesis
    using explode_first_transcript_wins [OF parse_example, of "''chr17''"
        "SequenceRange_new ''chr17'' 145 146" example_annotation
        "example_transcript ''tx1'' ''chr17'' False 100 50"
        "example_transcript ''tx3'' ''chr17'' True 141 50" "[]" reverse_complement]
      parse_example f
    by (simp add: example_transcript_def)
qed

text \<open>
  Claim C6. On a statement that parses, \<open>explode\<close> returns, and: it prints one message
  per transcript whose \<open>nucleotide_index\<close> raises OutOfRange, carrying the error and the
  statement, and nothing else; every probe returned has the coordinates, name and strand
  of a transcript that resolved, so a transcript that is out of range gives no probe; and
  for every transcript that resolves there is exactly one probe at its coordinates.
\<close>

theorem explode_skips_out_of_range:
  assumes "parse statement = Inr ps"
  shows "\<exists>out msgs. explode rc statement (Some ann) = Inr (out, msgs) \<and>
           msgs = concat (map (\<lambda>t. case nucleotide_index t (base ps) of
                                       Inl e \<Rightarrow> [InStatement e statement] | Inr i \<Rightarrow> [])
                              (lookup_gene (gene ps) ann)) \<and>
           (\<forall>p \<in> set out. \<exists>t \<in> set (lookup_gene (gene ps) ann).
               nucleotide_index t (base ps) = Inr (index p) \<and>
               txt_chromosome t = chromosome p \<and> name t = transcript p \<and>
               strand p = (if plus_strand t then ''+'' else ''-'')) \<and>
           (\<forall>t \<in> set (lookup_gene (gene ps) ann). \<forall>i.
               nucleotide_index t (base ps) = Inr i \<longrightarrow>
               (\<exists>p. filter (at_coordinate (txt_chromosome t) i) out = [p]))"
proof -
  let ?txs = "lookup_gene (gene ps) ann"
  let ?st = "explode_loop rc statement ps ?txs"
  have ex: "explode rc statement (Some ann) = Inr (probes ?st, stderr ?st)"
    using assms(1) by (simp add: explode_def Let_def)
  have msgs: "stderr ?st = concat (map (\<lambda>t. case nucleotide_index t (base ps) of
                                       Inl e \<Rightarrow> [InStatement e statement] | Inr i \<Rightarrow> []) ?txs)"
    by (rule explode_loop_stderr)
  have from_resolved: "\<exists>t \<in> set ?txs.
               nucleotide_index t (base ps) = Inr (index p) \<and>
               txt_chromosome t = chromosome p \<and> name t = transcript p \<and>
               strand p = (if plus_strand t then ''+'' else ''-'')" if "p \<in> set (probes ?st)" for p
  proof -
    let ?f = "filter (at_coordinate (chromosome p) (index p)) (probes ?st)"
    have pin: "p \<in> set ?f" using that by (simp add: at_coordinate_def)
    then have "map (\<lambda>p. (transcript p, strand p)) ?f \<noteq> []"
      by (auto simp: filter_empty_conv)
    then obtain t where f: "find (maps_to (base ps) (chromosome p) (index p)) ?txs = Some t"
      and m: "map (\<lambda>p. (transcript p, strand p)) ?f = [(name t, if plus_strand t then ''+'' else ''-'')]"
      using explode_loop_probes_at [of "chromosome p" "index p" rc statement ps ?txs]
      by (auto split: option.splits)
    from m obtain q where "?f = [q]" "transcript q = name t"
      "strand q = (if plus_strand t then ''+'' else ''-'')"
      by (auto simp: map_eq_Cons_conv)
    with pin have "transcript p = name t" "strand p = (if plus_strand t then ''+'' else ''-'')"
      by auto
    moreover from f have "t \<in> set ?txs" "maps_to (base ps) (chromosome p) (index p) t"
      by (auto simp: find_Some_iff)
    ultimately show ?thesis by (auto simp: maps_to_def)
  qed
  have yields: "\<exists>p. filter (at_coordinate (txt_chromosome t) i) (probes ?st) = [p]"
    if "t \<in> set ?txs" "nucleotide_index t (base ps) = Inr i" for t i
  proof -
    from that have "\<exists>t' \<in> set ?txs. maps_to (base ps) (txt_chromosome t) i t'"
      by (auto simp: maps_to_def)
    then obtain t0 where "find (maps_to (base ps) (txt_chromosome t) i) ?txs = Some t0"
      by (cases "find (maps_to (base ps) (txt_chromosome t) i) ?txs") (auto simp: find_None_iff)
    then have "map (\<lambda>p. (transcript p, strand p))
                 (filter (at_coordinate (txt_chromosome t) i) (probes ?st)) =
               [(name t0, if plus_strand t0 then ''+'' else ''-'')]"
      by (simp add: explode_loop_probes_at)
    then show ?thesis by (auto simp: map_eq_Cons_conv)
  qed
  from ex msgs from_resolved yields show ?thesis by blast
qed

theorem explode_skips_out_of_range_witness:
  "parse ''TP53:c.5G>A/21'' =
     Inr \<lparr>gene = ''TP53'', base = 5, reference = ''G'', mutation = ''A'',
          bases = 21, comment = []\<rparr> \<and>
   map (\<lambda>t. (name t, nucleotide_index t 5)) (lookup_gene ''TP53'' example_annotation) =
     [(''tx1'', Inr (SequenceRange_new ''chr17'' 145 146)),
      (''tx2'', Inl ''base outside the range of the transcript''),
      (''tx3'', Inr (SequenceRange_new ''chr17'' 145 146)),
      (''tx4'', Inr (SequenceRange_new ''chr17'' 404 405))] \<and>
   (\<exists>out msgs.
      explode reverse_complement ''TP53:c.5G>A/21'' (Some example_annotation) = Inr (out, msgs) \<and>
      msgs = [InStatement ''base outside the range of the transcript'' ''TP53:c.5G>A/21''] \<and>
      map transcript out = [''tx1'', ''tx4''])"
proof -
  have m: "map (\<lambda>t. (name t, nucleotide_index t 5)) (lookup_gene ''TP53'' example_annotation) =
     [(''tx1'', Inr (SequenceRange_new ''chr17'' 145 146)),
      (''tx2'', Inl ''base outside the range of the transcript''),
      (''tx3'', Inr (SequenceRange_new ''chr17'' 145 146)),
      (''tx4'', Inr (SequenceRange_new ''chr17'' 404 405))]"
    by (simp add: lookup_gene_def example_annotation_def example_transcript_def)
  have t: "(case explode reverse_complement ''TP53:c.5G>A/21'' (Some example_annotation) of
              Inl e \<Rightarrow> [] | Inr (out, msgs) \<Rightarrow> map transcript out) = [''tx1'', ''tx4'']"
    by code_simp
  from explode_skips_out_of_range [OF parse_example, of reverse_complement example_annotation]
  obtain out msgs where
    e: "explode reverse_complement ''TP53:c.5G>A/21'' (Some example_annotation) = Inr (out, msgs)"
    and ms: "msgs = concat (map (\<lambda>t. case nucleotide_index t 5 of
                                       Inl e \<Rightarrow> [InStatement e ''TP53:c.5G>A/21''] | Inr i \<Rightarrow> [])
                              (lookup_gene ''TP53'' example_annotation))"
    by auto
  have "msgs = [InStatement ''base outside the range of the transcript'' ''TP53:c.5G>A/21'']"
    unfolding ms by (simp add: lookup_gene_def example_annotation_def example_transcript_def)
  moreover have "map transcript out = [''tx1'', ''tx4'']" using t e by simp
  ultimately show ?thesis using parse_example m e by simp
qed

section \<open>Properties of dict_hash\<close>

lemma sort_key_fst_unique:
  assumes "distinct (map fst xs)" "distinct (map fst ys)" "set xs = set ys"
  shows "sort_key fst xs = sort_key fst ys"
proof -
  let ?a = "sort_key fst xs" and ?b = "sort_key fst ys"
  have da: "distinct (map fst ?a)" using assms(1) by (simp add: distinct_map)
  have db: "distinct (map fst ?b)" using assms(2) by (simp add: distinct_map)
  have st: "set (map fst ?a) = set (map fst ?b)" using assms(3) by simp
  have sa: "sorted (map fst ?a)" by (rule sorted_sort_key)
  have sb: "sorted (map fst ?b)" by (rule sorted_sort_key)
  have keys: "map fst ?a = map fst ?b"
    using sa da sb db st by (rule sorted_distinct_set_unique)
  have "inj_on fst (set xs)" using assms(1) by (simp add: distinct_map)
  then have "inj_on fst (set ?a \<union> set ?b)" using assms(3) by simp
  with keys show ?thesis by (rule map_inj_on)
qed

text \<open>
  Claim C7. Two dictionaries with the same key-value pairs, whatever the order in which
  the pairs were inserted, have the same \<open>dict_hash\<close>. A dictionary has no key twice,
  which is the hypothesis on \<open>d1\<close> and \<open>d2\<close>.
\<close>

theorem dict_hash_order_independent:
  "distinct (map fst d1) \<Longrightarrow> distinct (map fst d2) \<Longrightarrow> set d1 = set d2 \<Longrightarrow>
     dict_hash hash d1 = dict_hash hash d2"
  using sort_key_fst_unique [of d1 d2] by (simp add: dict_hash_def)

theorem dict_hash_order_independent_witness:
  "distinct (map fst [(''start1'', PInt 3), (''chromosome1'', PStr ''chr1''), (''end1'', PInt 7)]) \<and>
   distinct (map fst [(''chromosome1'', PStr ''chr1''), (''end1'', PInt 7), (''start1'', PInt 3)]) \<and>
   set [(''start1'', PInt 3), (''chromosome1'', PStr ''chr1''), (''end1'', PInt 7)] =
     set [(''chromosome1'', PStr ''chr1''), (''end1'', PInt 7), (''start1'', PInt 3)] \<and>
   (\<forall>h :: coordinate \<Rightarrow> int.
      dict_hash h [(''start1'', PInt 3), (''chromosome1'', PStr ''chr1''), (''end1'', PInt 7)] =
      dict_hash h [(''chromosome1'', PStr ''chr1''), (''end1'', PInt 7), (''start1'', PInt 3)])"
proof -
  let ?d1 = "[(''start1'', PInt 3), (''chromosome1'', PStr ''chr1''), (''end1'', PInt 7)]"
  let ?d2 = "[(''chromosome1'', PStr ''chr1''), (''end1'', PInt 7), (''start1'', PInt 3)]"
  have k1: "distinct (map fst ?d1)" by simp
  have k2: "distinct (map fst ?d2)" by simp
  have eq: "set ?d1 = set ?d2" by auto
  have "dict_hash h ?d1 = dict_hash h ?d2" for h :: "coordinate \<Rightarrow> int"
    using k1 k2 eq by (rule dict_hash_order_independent)
  with k1 k2 eq show ?thesis by blast
qed

section \<open>Properties of get_sequences\<close>

lemmas gs_defs = get_sequences_def get_sequences_step_def try_block_def after_try_def
  example_env_def example_sequence_range_def example_reference_bases_def example_genome_def
  good_statement_def missing_chromosome_statement_def no_feature_statement_def
  bases_from_coordinate_def probe_name_def getitem_def example_coordinate_def
  reverse_complement_def translate_def COMPLEMENT_def Let_def

text \<open>
  Claim C4. The claim says that a statement whose sequence cannot be assembled, because
  of NoFeatureError or MissingChromosome, is skipped, that no wrong sequence is yielded
  for it, and that the run goes on. The \<open>except\<close> clause prints and falls through to the
  statements after the \<open>try\<close>, which read \<open>coordinate\<close> and \<open>bases\<close>. When the first
  statement fails, one of the two variables was never assigned: the generator ends with
  UnboundLocalError and the statement after it is never read. When a later statement
  fails on a missing chromosome, \<open>coordinate\<close> is the new one and \<open>bases\<close> is still the
  sequence of the statement before: unless the two coordinate hashes collide, the failed
  statement is yielded under its own name with the other probe's sequence.
\<close>

theorem get_sequences_failure_not_skipped:
  "get_sequences (example_env h) [no_feature_statement, good_statement] example_genome =
     ([], [Skipping ''no feature''], Some (UnboundLocalError ''coordinate'')) \<and>
   get_sequences (example_env h) [missing_chromosome_statement, good_statement] example_genome =
     ([], [Skipping ''chr9''], Some (UnboundLocalError ''bases'')) \<and>
   get_sequences (example_env h) [good_statement, missing_chromosome_statement] example_genome =
     (if dict_hash h (example_coordinate ''chr1'' ''chr9'') =
         dict_hash h (example_coordinate ''chr1'' ''chr2'')
      then ([(''A-B_bp_A_B'', ''ACGTCCAA'')],
            [Skipping ''chr9'', Redundant ''A-C'' ''A'' ''C''], None)
      else ([(''A-B_bp_A_B'', ''ACGTCCAA''), (''A-C_bp_A_C'', ''ACGTCCAA'')],
            [Skipping ''chr9''], None))"
  by (simp add: gs_defs)

end
